theory Spec2Isabelle
  imports Main "HOL-Library.Word" "HOL-Library.AList" "HOL-Library.Signed_Division"
begin

section \<open>Shared types\<close>

text \<open>
  Go's \<open>int64\<close> and \<open>int32\<close> are fixed-width two's complement integers: addition and
  subtraction wrap, and the comparisons of the source are the signed ones
  (\<open><s\<close> and \<open>\<le>s\<close> on words). The source's variable \<open>partition\<close> is written
  \<open>part\<close> throughout, as the former is a constant of the list library.
\<close>

type_synonym int64 = "64 word"
type_synonym int32 = "32 word"

text \<open>
  The error values of the package. \<open>ExternalError\<close> stands for any error produced by a
  collaborator (the coordination-service client, the broker client); \<open>CommitFailed h c e\<close>
  is the error that \<open>FinalizePartition\<close> builds with \<open>fmt.Errorf\<close> from the highest
  processed offset, the last committed offset and the committer's error.
\<close>

datatype error =
    OffsetTooLarge
  | OffsetBackwardsError
  | NoOffsetToCommit
  | TopicPartitionNotFound
  | UncleanClose
  | AlreadyClosing
  | ErrOffsetOutOfRange
  | ErrPartitionClaimedByOther
  | ExternalError string
  | CommitFailed int64 int64 error

text \<open>Run-time panics of the Go code that the model keeps as results.\<close>

datatype panic = CloseOfClosedChannel | NilPointerDereference

section \<open>partitionOffsetTracker\<close>

text \<open>
  The struct \<open>partitionOffsetTracker\<close>. The mutex is left out (every operation below is one
  critical section); the channel \<open>done\<close> carries no values and is only ever closed, so it is
  the flag \<open>done_closed\<close>.
\<close>

record partitionOffsetTracker =
  done_closed :: bool
  waitingForOffset :: int64
  highestMarkedAsProcessedOffset :: int64
  lastConsumedOffset :: int64
  lastCommittedOffset :: int64

text \<open>
  \<open>markAsProcessed\<close>: the three branches of the source in their order. Closing the channel
  \<open>done\<close> a second time panics in Go.
\<close>

definition markAsProcessed ::
  "int64 \<Rightarrow> partitionOffsetTracker \<Rightarrow> panic + (error option \<times> partitionOffsetTracker)" where
  "markAsProcessed offset pot =
     (if lastConsumedOffset pot + 1 <s offset then Inr (Some OffsetTooLarge, pot)
      else if highestMarkedAsProcessedOffset pot <s offset then
        (let pot' = pot\<lparr>highestMarkedAsProcessedOffset := offset\<rparr> in
         if waitingForOffset pot' = highestMarkedAsProcessedOffset pot' then
           (if done_closed pot' then Inl CloseOfClosedChannel
            else Inr (None, pot'\<lparr>done_closed := True\<rparr>))
         else Inr (None, pot'))
      else Inr (Some OffsetBackwardsError, pot))"

text \<open>
  The type \<open>offsetCommitter\<close> is \<open>func(int64) error\<close>. A committer acts on the world outside
  the tracker (the coordination service), so it takes the state \<open>'w\<close> of that world and
  returns the new one.
\<close>

type_synonym 'w offsetCommitter = "int64 \<Rightarrow> 'w \<Rightarrow> error option \<times> 'w"

definition commit ::
  "'w offsetCommitter \<Rightarrow> partitionOffsetTracker \<Rightarrow> 'w \<Rightarrow>
     (error option \<times> partitionOffsetTracker) \<times> 'w" where
  "commit committer pot w =
     (if lastCommittedOffset pot <s highestMarkedAsProcessedOffset pot then
        (case committer (highestMarkedAsProcessedOffset pot) w of
           (Some err, w') \<Rightarrow> ((Some err, pot), w')
         | (None, w') \<Rightarrow>
             ((None, pot\<lparr>lastCommittedOffset := highestMarkedAsProcessedOffset pot\<rparr>), w'))
      else ((Some NoOffsetToCommit, pot), w))"

text \<open>
  \<open>waitForOffset\<close>: the \<open>select\<close> between the channel \<open>done\<close> and the timer is decided
  by the world: \<open>awaitDone closed timeout w\<close> says whether \<open>done\<close> (closed or not at the
  start of the wait) was received from before the timer fired. \<open>time.Duration\<close> is an
  \<open>int64\<close> of nanoseconds.
\<close>

type_synonym 'w awaitDone = "bool \<Rightarrow> int64 \<Rightarrow> 'w \<Rightarrow> bool \<times> 'w"

definition waitForOffset ::
  "'w awaitDone \<Rightarrow> int64 \<Rightarrow> int64 \<Rightarrow> partitionOffsetTracker \<Rightarrow> 'w \<Rightarrow>
     (bool \<times> partitionOffsetTracker) \<times> 'w" where
  "waitForOffset await offset timeout pot w =
     (if highestMarkedAsProcessedOffset pot <s offset then
        (let pot' = pot\<lparr>waitingForOffset := offset\<rparr> in
         case await (done_closed pot') timeout w of
           (reached, w') \<Rightarrow> ((reached, pot'), w'))
      else ((True, pot), w))"

text \<open>The tracker that \<open>InitializePartition\<close> builds (\<open>waitingForOffset\<close> has Go's zero value).\<close>

definition newTracker :: "int64 \<Rightarrow> partitionOffsetTracker" where
  "newTracker nextOffset =
     \<lparr>done_closed = False,
      waitingForOffset = 0,
      highestMarkedAsProcessedOffset = nextOffset - 1,
      lastConsumedOffset = nextOffset - 1,
      lastCommittedOffset = nextOffset - 1\<rparr>"

text \<open>The assignment \<open>p.lastConsumedOffset = offset\<close> of \<open>MarkAsConsumed\<close>.\<close>

definition setLastConsumed :: "int64 \<Rightarrow> partitionOffsetTracker \<Rightarrow> partitionOffsetTracker" where
  "setLastConsumed offset p = p\<lparr>lastConsumedOffset := offset\<rparr>"

subsection \<open>Sequences of calls on one tracker\<close>

text \<open>
  The calls that reach a tracker: \<open>MarkAsConsumed\<close> (through the manager), \<open>markAsProcessed\<close>,
  \<open>commit\<close> with some committer, and \<open>waitForOffset\<close>. \<open>applyOps\<close> runs a sequence of them
  in order and stops at a panic; the errors the calls return are dropped, as the state is what
  matters here.
\<close>

datatype 'w trackerOp =
    OpMarkAsConsumed int64
  | OpMarkAsProcessed int64
  | OpCommit "'w offsetCommitter"
  | OpWaitForOffset "'w awaitDone" int64 int64

fun applyOp ::
  "'w trackerOp \<Rightarrow> partitionOffsetTracker \<times> 'w \<Rightarrow> panic + (partitionOffsetTracker \<times> 'w)" where
  "applyOp (OpMarkAsConsumed offset) (pot, w) = Inr (setLastConsumed offset pot, w)"
| "applyOp (OpMarkAsProcessed offset) (pot, w) =
     (case markAsProcessed offset pot of
        Inl p \<Rightarrow> Inl p
      | Inr (err, pot') \<Rightarrow> Inr (pot', w))"
| "applyOp (OpCommit committer) (pot, w) =
     (case commit committer pot w of ((err, pot'), w') \<Rightarrow> Inr (pot', w'))"
| "applyOp (OpWaitForOffset await offset timeout) (pot, w) =
     (case waitForOffset await offset timeout pot w of ((reached, pot'), w') \<Rightarrow> Inr (pot', w'))"

fun applyOps ::
  "'w trackerOp list \<Rightarrow> partitionOffsetTracker \<times> 'w \<Rightarrow> panic + (partitionOffsetTracker \<times> 'w)" where
  "applyOps [] s = Inr s"
| "applyOps (x # xs) s = (case applyOp x s of Inl p \<Rightarrow> Inl p | Inr s' \<Rightarrow> applyOps xs s')"



text \<open>
  A committer that also records the arguments it is invoked with, in order of invocation.
\<close>

definition recording :: "'w offsetCommitter \<Rightarrow> (int64 list \<times> 'w) offsetCommitter" where
  "recording committer offset cw =
     (case committer offset (snd cw) of (r, w') \<Rightarrow> (r, (fst cw @ [offset], w')))"

section \<open>zookeeperOffsetManager\<close>

text \<open>
  The coordination-service client (the \<open>kazoo\<close> consumer-group handle \<open>zom.cg.group\<close>) is
  an external collaborator: its two operations used here are parameters, acting on the state
  \<open>'w\<close> of the world outside the manager.
\<close>

record 'w group =
  FetchOffset :: "string \<Rightarrow> int32 \<Rightarrow> 'w \<Rightarrow> (error + int64) \<times> 'w"
  CommitOffset :: "string \<Rightarrow> int32 \<Rightarrow> int64 \<Rightarrow> 'w \<Rightarrow> error option \<times> 'w"

text \<open>
  The maps \<open>topicOffsets\<close> and \<open>offsetsMap\<close> are association lists with distinct keys,
  read with \<open>map_of\<close> and written with \<open>AList.update\<close> and \<open>AList.delete\<close>. The manager's
  channels \<open>closing\<close> and \<open>closed\<close> are only ever closed: two flags.
\<close>

type_synonym topicOffsets = "(int32 \<times> partitionOffsetTracker) list"
type_synonym offsetsMap = "(string \<times> topicOffsets) list"

record zookeeperOffsetManager =
  offsets :: offsetsMap
  closing :: bool
  closed :: bool

text \<open>\<open>zom.offsets[topic][partition]\<close>: indexing a missing (nil) inner map yields nil.\<close>

definition lookupTracker :: "offsetsMap \<Rightarrow> string \<Rightarrow> int32 \<Rightarrow> partitionOffsetTracker option" where
  "lookupTracker offs topic part =
     (case map_of offs topic of None \<Rightarrow> None | Some po \<Rightarrow> map_of po part)"

text \<open>
  \<open>zom.offsets[topic][partition] = tracker\<close>, also used to write back a tracker that the
  source mutates through its pointer.
\<close>

definition storeTracker ::
  "offsetsMap \<Rightarrow> string \<Rightarrow> int32 \<Rightarrow> partitionOffsetTracker \<Rightarrow> offsetsMap" where
  "storeTracker offs topic part tracker =
     (case map_of offs topic of
        None \<Rightarrow> offs
      | Some po \<Rightarrow> AList.update topic (AList.update part tracker po) offs)"

text \<open>\<open>delete(zom.offsets[topic], partition)\<close>: deleting from a nil map does nothing.\<close>

definition deleteTracker :: "offsetsMap \<Rightarrow> string \<Rightarrow> int32 \<Rightarrow> offsetsMap" where
  "deleteTracker offs topic part =
     (case map_of offs topic of
        None \<Rightarrow> offs
      | Some po \<Rightarrow> AList.update topic (AList.delete part po) offs)"

definition InitializePartition ::
  "'w group \<Rightarrow> string \<Rightarrow> int32 \<Rightarrow> zookeeperOffsetManager \<Rightarrow> 'w \<Rightarrow>
     ((int64 \<times> error option) \<times> zookeeperOffsetManager) \<times> 'w" where
  "InitializePartition grp topic part zom w =
     (let offs = (if map_of (offsets zom) topic = None
                  then AList.update topic [] (offsets zom) else offsets zom)
      in case FetchOffset grp topic part w of
           (Inl err, w') \<Rightarrow> (((0, Some err), zom\<lparr>offsets := offs\<rparr>), w')
         | (Inr nextOffset, w') \<Rightarrow>
             (((nextOffset, None),
               zom\<lparr>offsets := storeTracker offs topic part (newTracker nextOffset)\<rparr>), w'))"

text \<open>The closure that \<open>commitOffset\<close> passes to \<open>tracker.commit\<close>.\<close>

definition commitOffset_committer :: "'w group \<Rightarrow> string \<Rightarrow> int32 \<Rightarrow> 'w offsetCommitter" where
  "commitOffset_committer grp topic part offset w =
     (if 0 \<le>s offset then CommitOffset grp topic part (offset + 1) w else (None, w))"

text \<open>\<open>commitOffset\<close> (the debug log line is left out).\<close>

definition commitOffset ::
  "'w group \<Rightarrow> string \<Rightarrow> int32 \<Rightarrow> partitionOffsetTracker \<Rightarrow> 'w \<Rightarrow>
     (error option \<times> partitionOffsetTracker) \<times> 'w" where
  "commitOffset grp topic part tracker w =
     commit (commitOffset_committer grp topic part) tracker w"

text \<open>
  \<open>FinalizePartition\<close>. With \<open>lastOffset \<ge> 0\<close> the source reads a field of the tracker, which
  panics when the partition has no tracker. The result of \<open>waitForOffset\<close> only decides a
  log line.
\<close>

definition FinalizePartition ::
  "'w group \<Rightarrow> 'w awaitDone \<Rightarrow> string \<Rightarrow> int32 \<Rightarrow> int64 \<Rightarrow> int64 \<Rightarrow>
     zookeeperOffsetManager \<Rightarrow> 'w \<Rightarrow> panic + ((error option \<times> zookeeperOffsetManager) \<times> 'w)" where
  "FinalizePartition grp await topic part lastOffset timeout zom w =
     (if 0 \<le>s lastOffset then
        (case lookupTracker (offsets zom) topic part of
           None \<Rightarrow> Inl NilPointerDereference
         | Some tracker \<Rightarrow>
             (case (if 0 <s lastOffset - highestMarkedAsProcessedOffset tracker
                    then (case waitForOffset await lastOffset timeout tracker w of
                            ((reached, tracker'), w') \<Rightarrow> (tracker', w'))
                    else (tracker, w)) of
                (tracker1, w1) \<Rightarrow>
                  (case commitOffset grp topic part tracker1 w1 of
                     ((err, tracker2), w2) \<Rightarrow>
                       (if err \<noteq> None \<and> err \<noteq> Some NoOffsetToCommit then
                          Inr ((Some (CommitFailed (highestMarkedAsProcessedOffset tracker2)
                                        (lastCommittedOffset tracker2) (the err)),
                                zom\<lparr>offsets := storeTracker (offsets zom) topic part tracker2\<rparr>),
                               w2)
                        else
                          Inr ((None,
                                zom\<lparr>offsets := deleteTracker (offsets zom) topic part\<rparr>),
                               w2)))))
      else Inr ((None, zom\<lparr>offsets := deleteTracker (offsets zom) topic part\<rparr>), w))"

definition MarkAsProcessed ::
  "string \<Rightarrow> int32 \<Rightarrow> int64 \<Rightarrow> zookeeperOffsetManager \<Rightarrow>
     panic + (error option \<times> zookeeperOffsetManager)" where
  "MarkAsProcessed topic part offset zom =
     (case lookupTracker (offsets zom) topic part of
        Some p \<Rightarrow>
          (case markAsProcessed offset p of
             Inl pn \<Rightarrow> Inl pn
           | Inr (err, p') \<Rightarrow>
               Inr (err, zom\<lparr>offsets := storeTracker (offsets zom) topic part p'\<rparr>))
      | None \<Rightarrow> Inr (Some TopicPartitionNotFound, zom))"


text \<open>
  \<open>commitOffsets\<close>: one commit round over every tracker; the errors are dropped. Go ranges
  over a map in no fixed order; the model takes the order of the association lists.
\<close>

fun commitTopic :: "'w group \<Rightarrow> string \<Rightarrow> topicOffsets \<Rightarrow> 'w \<Rightarrow> topicOffsets \<times> 'w" where
  "commitTopic grp topic [] w = ([], w)"
| "commitTopic grp topic ((part, offsetTracker) # rest) w =
     (case commitOffset grp topic part offsetTracker w of
        ((err, offsetTracker'), w') \<Rightarrow>
          (case commitTopic grp topic rest w' of
             (rest', w'') \<Rightarrow> ((part, offsetTracker') # rest', w'')))"

fun commitTopics :: "'w group \<Rightarrow> offsetsMap \<Rightarrow> 'w \<Rightarrow> offsetsMap \<times> 'w" where
  "commitTopics grp [] w = ([], w)"
| "commitTopics grp ((topic, partitionOffsets) # rest) w =
     (case commitTopic grp topic partitionOffsets w of
        (partitionOffsets', w') \<Rightarrow>
          (case commitTopics grp rest w' of
             (rest', w'') \<Rightarrow> ((topic, partitionOffsets') # rest', w'')))"

definition commitOffsets ::
  "'w group \<Rightarrow> zookeeperOffsetManager \<Rightarrow> 'w \<Rightarrow> zookeeperOffsetManager \<times> 'w" where
  "commitOffsets grp zom w =
     (case commitTopics grp (offsets zom) w of (offs', w') \<Rightarrow> (zom\<lparr>offsets := offs'\<rparr>, w'))"

text \<open>
  The committer task \<open>offsetCommitter\<close>, seen from the moment \<open>closing\<close> is closed: it may
  still take \<open>ticks\<close> ticker events, each one commit round, before its \<open>select\<close> takes the
  \<open>closing\<close> case, closes \<open>closed\<close> and returns.
\<close>

fun offsetCommitter ::
  "'w group \<Rightarrow> nat \<Rightarrow> zookeeperOffsetManager \<Rightarrow> 'w \<Rightarrow> zookeeperOffsetManager \<times> 'w" where
  "offsetCommitter grp 0 zom w = (zom\<lparr>closed := True\<rparr>, w)"
| "offsetCommitter grp (Suc ticks) zom w =
     (case commitOffsets grp zom w of (zom', w') \<Rightarrow> offsetCommitter grp ticks zom' w')"

text \<open>
  The loop of \<open>Close\<close> over the topics: \<open>closeError\<close> becomes \<open>UncleanClose\<close> at every topic
  whose partition map is not empty.
\<close>

fun closeScan :: "offsetsMap \<Rightarrow> error option \<Rightarrow> error option" where
  "closeScan [] closeError = closeError"
| "closeScan ((topic, partitionOffsets) # rest) closeError =
     closeScan rest (if length partitionOffsets > 0 then Some UncleanClose else closeError)"

text \<open>
  \<open>Close\<close>: closes \<open>closing\<close> (a panic when it is closed already), waits for the committer
  task to close \<open>closed\<close>, then scans the map.
\<close>

definition Close ::
  "'w group \<Rightarrow> nat \<Rightarrow> zookeeperOffsetManager \<Rightarrow> 'w \<Rightarrow>
     panic + ((error option \<times> zookeeperOffsetManager) \<times> 'w)" where
  "Close grp ticks zom w =
     (if closing zom then Inl CloseOfClosedChannel
      else (case offsetCommitter grp ticks (zom\<lparr>closing := True\<rparr>) w of
              (zom', w') \<Rightarrow> Inr ((closeScan (offsets zom') None, zom'), w')))"

section \<open>A small coordination service to run the model\<close>

text \<open>
  A stand-in for the coordination service, used to evaluate the model at concrete inputs: it
  stores the persisted offsets, answers \<open>-1\<close> for an offset that is not stored (the source's
  comment in \<open>InitializePartition\<close>: ``if not found in zk, nextOffset will be -1''), and rejects
  every write while \<open>zkDown\<close> is set. The wait for \<open>done\<close> succeeds when the channel is closed
  already.
\<close>

record sim =
  stored :: "((string \<times> int32) \<times> int64) list"
  zkDown :: bool

definition simGroup :: "sim group" where
  "simGroup =
     \<lparr>FetchOffset = (\<lambda>topic part w.
        (case map_of (stored w) (topic, part) of None \<Rightarrow> Inr (- 1) | Some v \<Rightarrow> Inr v, w)),
      CommitOffset = (\<lambda>topic part offset w.
        if zkDown w then (Some (ExternalError ''zk''), w)
        else (None, w\<lparr>stored := AList.update (topic, part) offset (stored w)\<rparr>))\<rparr>"

definition simAwait :: "sim awaitDone" where
  "simAwait isClosed timeout w = (isClosed, w)"

definition newManager :: zookeeperOffsetManager where
  "newManager = \<lparr>offsets = [], closing = False, closed = False\<rparr>"

section \<open>Orderings between the offsets of a tracker\<close>




section \<open>ConsumerGroup\<close>

text \<open>
  The fields of \<open>Config\<close> that the functions below read: \<open>Offsets.Initial\<close> and
  \<open>Offsets.ProcessingTimeout\<close> (a \<open>time.Duration\<close>, in nanoseconds). \<open>OffsetNewest\<close> and
  \<open>OffsetOldest\<close> are the two constants of the broker client library.
\<close>

record config =
  Initial :: int64
  ProcessingTimeout :: int64

definition OffsetNewest :: int64 where
  "OffsetNewest = - 1"

definition OffsetOldest :: int64 where
  "OffsetOldest = - 2"

text \<open>
  The external collaborators of a consumer group, as operations on the world \<open>'w\<close>: the
  coordination-service handles (\<open>cg.group\<close>, \<open>cg.instance\<close>, \<open>cg.kazoo\<close>), the broker client
  (\<open>cg.consumer\<close>) and the partition consumer it opens, the clock, and the other tasks of the
  process: \<open>AwaitDone\<close> answers the \<open>select\<close> of \<open>waitForOffset\<close>, and \<open>WaitGroupWait\<close>
  is \<open>cg.wg.Wait()\<close>, which lets the topic consumers run to their end (they act on the
  offsets map and on the world).
\<close>

record 'w collaborators =
  zkGroup :: "'w group"
  ClaimPartition :: "string \<Rightarrow> int32 \<Rightarrow> 'w \<Rightarrow> error option \<times> 'w"
  ReleasePartition :: "string \<Rightarrow> int32 \<Rightarrow> 'w \<Rightarrow> error option \<times> 'w"
  Deregister :: "'w \<Rightarrow> error option \<times> 'w"
  KazooClose :: "'w \<Rightarrow> 'w"
  ConsumePartition :: "string \<Rightarrow> int32 \<Rightarrow> int64 \<Rightarrow> 'w \<Rightarrow> error option \<times> 'w"
  PartitionConsumerClose :: "'w \<Rightarrow> 'w"
  ConsumerClose :: "'w \<Rightarrow> error option \<times> 'w"
  Sleep :: "'w \<Rightarrow> 'w"
  AwaitDone :: "'w awaitDone"
  WaitGroupWait :: "offsetsMap \<Rightarrow> 'w \<Rightarrow> offsetsMap \<times> 'w"

text \<open>
  The state of a \<open>ConsumerGroup\<close> that \<open>Close\<close> touches: whether \<open>singleShutdown\<close> has run,
  the channels \<open>stopper\<close>, \<open>messages\<close> and \<open>errors\<close> (closed or not), whether \<open>instance\<close> is
  nil, and the offset manager.
\<close>

record consumerGroup =
  shutdownDone :: bool
  stopper_closed :: bool
  messages_closed :: bool
  errors_closed :: bool
  instance_nil :: bool
  offsetManager :: zookeeperOffsetManager

text \<open>
  \<open>ConsumerGroup.Close\<close>. The body of \<open>singleShutdown.Do\<close> runs at the first call only; a
  later call returns \<open>AlreadyClosing\<close>. The error of the offset manager's \<open>Close\<close> is only
  logged. \<open>shutdownError\<close> is assigned the result of \<open>Deregister\<close> and then the result of
  the broker client's \<open>Close\<close>. \<open>ticks\<close> is passed to the offset manager's \<open>Close\<close>.
\<close>

definition ConsumerGroup_Close ::
  "'w collaborators \<Rightarrow> nat \<Rightarrow> consumerGroup \<Rightarrow> 'w \<Rightarrow>
     panic + ((error option \<times> consumerGroup) \<times> 'w)" where
  "ConsumerGroup_Close env ticks cg w =
     (if shutdownDone cg then Inr ((Some AlreadyClosing, cg), w)
      else if stopper_closed cg then Inl CloseOfClosedChannel
      else
        (case WaitGroupWait env (offsets (offsetManager cg)) w of
           (offs1, w1) \<Rightarrow>
             (case Close (zkGroup env) ticks ((offsetManager cg)\<lparr>offsets := offs1\<rparr>) w1 of
                Inl p \<Rightarrow> Inl p
              | Inr ((err, zom2), w2) \<Rightarrow>
                  (case Deregister env w2 of
                     (shutdownError, w3) \<Rightarrow>
                       (case ConsumerClose env w3 of
                          (shutdownError', w4) \<Rightarrow>
                            if messages_closed cg \<or> errors_closed cg
                            then Inl CloseOfClosedChannel
                            else Inr ((shutdownError',
                                       cg\<lparr>shutdownDone := True, stopper_closed := True,
                                          messages_closed := True, errors_closed := True,
                                          instance_nil := True, offsetManager := zom2\<rparr>),
                                      KazooClose env w4))))))"

subsection \<open>consumePartition\<close>




text \<open>
  Opening the broker stream (the lines of \<open>consumePartition\<close> from the first
  \<open>ConsumePartition\<close> to the retry): the result is the last error and the offset last asked
  for.
\<close>

definition openPartitionConsumer ::
  "'w collaborators \<Rightarrow> config \<Rightarrow> string \<Rightarrow> int32 \<Rightarrow> int64 \<Rightarrow> 'w \<Rightarrow>
     (error option \<times> int64) \<times> 'w" where
  "openPartitionConsumer env cfg topic part nextOffset w =
     (case ConsumePartition env topic part nextOffset w of
        (Some err, w') \<Rightarrow>
          if err = ErrOffsetOutOfRange then
            (let nextOffset' = (if Initial cfg = OffsetOldest then OffsetOldest else OffsetNewest)
             in case ConsumePartition env topic part nextOffset' w' of
                  (err', w'') \<Rightarrow> ((err', nextOffset'), w''))
          else ((Some err, nextOffset), w')
      | (None, w') \<Rightarrow> ((None, nextOffset), w'))"





text \<open>
  A broker and a coordination service to run a consumer group at concrete inputs: the broker
  logs the offsets it is asked to open in \<open>opens\<close> and answers the successive calls of
  \<open>ConsumePartition\<close> with the entries of \<open>answers\<close> (success once they are used up);
  \<open>deregisterFails\<close> makes \<open>Deregister\<close> fail; \<open>released\<close> counts the calls of
  \<open>ReleasePartition\<close>.
\<close>

record simCg =
  zk :: sim
  opens :: "int64 list"
  answers :: "error option list"
  deregisterFails :: bool
  released :: nat

definition simEnv :: "simCg collaborators" where
  "simEnv =
     \<lparr>zkGroup =
        \<lparr>FetchOffset = (\<lambda>topic part w.
           case FetchOffset simGroup topic part (zk w) of (r, z) \<Rightarrow> (r, w\<lparr>zk := z\<rparr>)),
         CommitOffset = (\<lambda>topic part offset w.
           case CommitOffset simGroup topic part offset (zk w) of (r, z) \<Rightarrow> (r, w\<lparr>zk := z\<rparr>))\<rparr>,
      ClaimPartition = (\<lambda>topic part w. (None, w)),
      ReleasePartition = (\<lambda>topic part w. (None, w\<lparr>released := Suc (released w)\<rparr>)),
      Deregister = (\<lambda>w. (if deregisterFails w then Some (ExternalError ''deregister'') else None, w)),
      KazooClose = (\<lambda>w. w),
      ConsumePartition = (\<lambda>topic part offset w.
        (case answers w of [] \<Rightarrow> None | a # rest \<Rightarrow> a,
         w\<lparr>opens := opens w @ [offset], answers := tl (answers w)\<rparr>)),
      PartitionConsumerClose = (\<lambda>w. w),
      ConsumerClose = (\<lambda>w. (None, w)),
      Sleep = (\<lambda>w. w),
      AwaitDone = (\<lambda>isClosed timeout w. (isClosed, w)),
      WaitGroupWait = (\<lambda>offs w. (offs, w))\<rparr>"


definition simWorld :: "error option list \<Rightarrow> int64 list \<Rightarrow> bool \<Rightarrow> nat \<Rightarrow> simCg" where
  "simWorld as os df n =
     \<lparr>zk = \<lparr>stored = [((''t'', 0), 1000)], zkDown = False\<rparr>, opens = os, answers = as,
      deregisterFails = df, released = n\<rparr>"

definition freshGroup :: consumerGroup where
  "freshGroup =
     \<lparr>shutdownDone = False, stopper_closed = False, messages_closed = False,
      errors_closed = False, instance_nil = False, offsetManager = newManager\<rparr>"

section \<open>Signed 64-bit arithmetic\<close>

lemma sint_succ: "sint (a::int64) < 2^63 - 1 \<Longrightarrow> sint (a + 1) = sint a + 1"
  using sint_ge[of a] by (simp add: sint_word_add signed_take_bit_int_eq_self)

lemma sint_pred: "- (2^63) < sint (a::int64) \<Longrightarrow> sint (a - 1) = sint a - 1"
  using sint_lt[of a] by (simp add: sint_word_diff signed_take_bit_int_eq_self)


lemma sint_min:
  assumes n: "(n::int64) \<noteq> - (2^63)"
  shows "- (2^63) < sint n"
proof -
  have "sint n \<noteq> - (2^63)"
  proof
    assume "sint n = - (2^63)"
    then have "word_of_int (sint n) = (word_of_int (- (2^63)) :: int64)" by simp
    then have "n = - (2^63)" by simp
    with n show False by simp
  qed
  with sint_ge[of n] show ?thesis by simp
qed

lemma pred_less: "(n::int64) \<noteq> - (2^63) \<Longrightarrow> n - 1 <s n"
  using sint_pred[OF sint_min] by (simp add: word_sless_alt)

lemma sub_pos:
  assumes "0 \<le>s (l::int64)" "0 <s l - h"
  shows "h <s l"
proof (rule ccontr)
  assume "\<not> h <s l"
  then have le: "sint l \<le> sint h" by (simp add: word_sless_alt)
  have l0: "0 \<le> sint l" using assms(1) by (simp add: word_sle_eq)
  have "sint (l - h) = sint l - sint h"
    using le l0 sint_lt[of h] sint_ge[of l]
    by (simp add: sint_word_diff signed_take_bit_int_eq_self)
  with le assms(2) show False by (simp add: word_sless_alt)
qed


section \<open>The order of the three offsets of a tracker\<close>








section \<open>markAsProcessed\<close>

text \<open>
  Claim C2: for every tracker state and every offset \<open>x\<close> with \<open>x > lastConsumedOffset + 1\<close>
  (as integers), \<open>markAsProcessed(x)\<close> returns \<open>OffsetTooLarge\<close> and leaves every field of the
  tracker unchanged.
\<close>

theorem markAsProcessed_too_large:
  assumes "sint (lastConsumedOffset pot) + 1 < sint x"
  shows "markAsProcessed x pot = Inr (Some OffsetTooLarge, pot)"
  using assms sint_lt[of x] sint_succ[of "lastConsumedOffset pot"]
  by (simp add: markAsProcessed_def word_sless_alt)

theorem markAsProcessed_too_large_witness:
  "sint (lastConsumedOffset (newTracker 5)) + 1 < sint (9::int64) \<and>
   markAsProcessed 9 (newTracker 5) = Inr (Some OffsetTooLarge, newTracker 5)"
proof -
  have h: "sint (lastConsumedOffset (newTracker 5)) + 1 < sint (9::int64)"
    by (simp add: newTracker_def)
  from h markAsProcessed_too_large[OF h] show ?thesis by simp
qed

text \<open>
  Claim C3: when \<open>markAsProcessed(y)\<close> has succeeded, a following call \<open>markAsProcessed(x)\<close>
  with \<open>x \<le> y\<close> returns \<open>OffsetBackwardsError\<close> and leaves every field of the tracker
  unchanged.
\<close>

theorem markAsProcessed_backwards:
  assumes "markAsProcessed y pot = Inr (None, pot')" and "x \<le>s y"
  shows "markAsProcessed x pot' = Inr (Some OffsetBackwardsError, pot')"
proof -
  from assms(1) have ok: "\<not> lastConsumedOffset pot + 1 <s y"
    and hp: "highestMarkedAsProcessedOffset pot' = y"
    and lc: "lastConsumedOffset pot' = lastConsumedOffset pot"
    by (auto simp: markAsProcessed_def Let_def split: if_splits)
  from ok assms(2) have "\<not> lastConsumedOffset pot + 1 <s x"
    by (simp add: word_sless_alt word_sle_eq)
  moreover from assms(2) have "\<not> y <s x" by (simp add: word_sless_alt word_sle_eq)
  ultimately show ?thesis by (simp add: markAsProcessed_def hp lc)
qed

theorem markAsProcessed_backwards_witness:
  "markAsProcessed 5 (newTracker 5) =
     Inr (None, (newTracker 5)\<lparr>highestMarkedAsProcessedOffset := 5\<rparr>)
   \<and> (3::int64) \<le>s 5
   \<and> markAsProcessed 3 ((newTracker 5)\<lparr>highestMarkedAsProcessedOffset := 5\<rparr>) =
       Inr (Some OffsetBackwardsError, (newTracker 5)\<lparr>highestMarkedAsProcessedOffset := 5\<rparr>)"
proof -
  have a: "markAsProcessed 5 (newTracker 5) =
             Inr (None, (newTracker 5)\<lparr>highestMarkedAsProcessedOffset := 5\<rparr>)"
    by (simp add: newTracker_def markAsProcessed_def)
  have b: "(3::int64) \<le>s 5" by simp
  from a b markAsProcessed_backwards[OF a b] show ?thesis by simp
qed

text \<open>
  The highest processed offset never decreases, so an offset at or below one that was
  accepted is never accepted later, whatever calls lie in between: it is rejected, and the
  tracker is unchanged.
\<close>

lemma applyOp_processed_mono:
  "applyOp x (pot, w) = Inr (pot', w') \<Longrightarrow>
   highestMarkedAsProcessedOffset pot \<le>s highestMarkedAsProcessedOffset pot'"
  by (cases x)
     (auto simp: setLastConsumed_def markAsProcessed_def commit_def waitForOffset_def Let_def
         word_sle_eq word_sless_alt
       split: if_splits sum.splits prod.splits option.splits)

lemma applyOps_processed_mono:
  "applyOps ops s = Inr s' \<Longrightarrow>
   highestMarkedAsProcessedOffset (fst s) \<le>s highestMarkedAsProcessedOffset (fst s')"
proof (induction ops arbitrary: s)
  case Nil
  then show ?case by simp
next
  case (Cons x xs)
  then obtain s1 where s1: "applyOp x s = Inr s1" "applyOps xs s1 = Inr s'"
    by (auto split: sum.splits)
  from s1(1) have "highestMarkedAsProcessedOffset (fst s) \<le>s highestMarkedAsProcessedOffset (fst s1)"
    using applyOp_processed_mono[of x "fst s" "snd s" "fst s1" "snd s1"] by simp
  moreover from Cons.IH[OF s1(2)]
  have "highestMarkedAsProcessedOffset (fst s1) \<le>s highestMarkedAsProcessedOffset (fst s')" .
  ultimately show ?case by (simp add: word_sle_eq)
qed

lemma markAsProcessed_rejected_later:
  assumes "markAsProcessed y pot = Inr (None, pot1)"
    and "applyOps ops (pot1, w) = Inr (pot2, w')"
    and "x \<le>s y"
  shows "markAsProcessed x pot2 = Inr (Some OffsetBackwardsError, pot2) \<or>
         markAsProcessed x pot2 = Inr (Some OffsetTooLarge, pot2)"
proof -
  from assms(1) have "highestMarkedAsProcessedOffset pot1 = y"
    by (auto simp: markAsProcessed_def Let_def split: if_splits)
  with applyOps_processed_mono[OF assms(2)] assms(3)
  have "\<not> highestMarkedAsProcessedOffset pot2 <s x"
    by (simp add: word_sle_eq word_sless_alt)
  then show ?thesis by (simp add: markAsProcessed_def)
qed

section \<open>commit\<close>

text \<open>
  Claim C4: \<open>commit(committerFn)\<close> invokes \<open>committerFn(highestMarkedAsProcessedOffset)\<close> if and
  only if \<open>highestMarkedAsProcessedOffset > lastCommittedOffset\<close> (the committer records its
  invocations in \<open>calls\<close>); when the committer succeeds, \<open>lastCommittedOffset\<close> becomes
  \<open>highestMarkedAsProcessedOffset\<close>; when the committer returns an error, that error is
  returned and the tracker is unchanged; when there is nothing new to commit, the result is
  \<open>NoOffsetToCommit\<close>, the committer is not invoked and nothing changes.
\<close>

theorem commit_cases:
  assumes "commit (recording committer) pot (calls, w) = ((res, pot'), (calls', w'))"
  shows "(lastCommittedOffset pot <s highestMarkedAsProcessedOffset pot \<longrightarrow>
            calls' = calls @ [highestMarkedAsProcessedOffset pot] \<and>
            (res, w') = committer (highestMarkedAsProcessedOffset pot) w \<and>
            (res = None \<longrightarrow>
               pot' = pot\<lparr>lastCommittedOffset := highestMarkedAsProcessedOffset pot\<rparr>) \<and>
            (res \<noteq> None \<longrightarrow> pot' = pot))
       \<and> (\<not> lastCommittedOffset pot <s highestMarkedAsProcessedOffset pot \<longrightarrow>
            calls' = calls \<and> w' = w \<and> res = Some NoOffsetToCommit \<and> pot' = pot)"
  using assms
  by (auto simp: commit_def recording_def split: if_splits prod.splits option.splits)

theorem commit_cases_witness:
  "commit (recording (\<lambda>offset w. (None, w)))
      \<lparr>done_closed = False, waitingForOffset = 0, highestMarkedAsProcessedOffset = 7,
       lastConsumedOffset = 9, lastCommittedOffset = 4\<rparr> ([], ()) =
     ((None, \<lparr>done_closed = False, waitingForOffset = 0, highestMarkedAsProcessedOffset = 7,
              lastConsumedOffset = 9, lastCommittedOffset = 7\<rparr>), ([7], ()))
   \<and> (4::int64) <s 7
   \<and> commit (recording (\<lambda>offset w. (Some (ExternalError ''zk''), w)))
      \<lparr>done_closed = False, waitingForOffset = 0, highestMarkedAsProcessedOffset = 7,
       lastConsumedOffset = 9, lastCommittedOffset = 4\<rparr> ([], ()) =
     ((Some (ExternalError ''zk''),
       \<lparr>done_closed = False, waitingForOffset = 0, highestMarkedAsProcessedOffset = 7,
        lastConsumedOffset = 9, lastCommittedOffset = 4\<rparr>), ([7], ()))
   \<and> commit (recording (\<lambda>offset w. (None, w)))
      \<lparr>done_closed = False, waitingForOffset = 0, highestMarkedAsProcessedOffset = 7,
       lastConsumedOffset = 9, lastCommittedOffset = 7\<rparr> ([], ()) =
     ((Some NoOffsetToCommit,
       \<lparr>done_closed = False, waitingForOffset = 0, highestMarkedAsProcessedOffset = 7,
        lastConsumedOffset = 9, lastCommittedOffset = 7\<rparr>), ([], ()))
   \<and> \<not> (7::int64) <s 7"
proof -
  let ?p = "\<lparr>done_closed = False, waitingForOffset = 0, highestMarkedAsProcessedOffset = 7,
       lastConsumedOffset = 9, lastCommittedOffset = (4::int64)\<rparr>"
  let ?q = "\<lparr>done_closed = False, waitingForOffset = 0, highestMarkedAsProcessedOffset = 7,
       lastConsumedOffset = 9, lastCommittedOffset = (7::int64)\<rparr>"
  let ?ok = "(\<lambda>offset w. (None, w)) :: unit offsetCommitter"
  let ?ko = "(\<lambda>offset w. (Some (ExternalError ''zk''), w)) :: unit offsetCommitter"
  have e1: "commit (recording ?ok) ?p ([], ()) = ((None, ?q), ([7], ()))"
    by (simp add: commit_def recording_def)
  have e2: "commit (recording ?ko) ?p ([], ()) = ((Some (ExternalError ''zk''), ?p), ([7], ()))"
    by (simp add: commit_def recording_def)
  have e3: "commit (recording ?ok) ?q ([], ()) = ((Some NoOffsetToCommit, ?q), ([], ()))"
    by (simp add: commit_def recording_def)
  have lt: "(4::int64) <s 7" "\<not> (7::int64) <s 7" by simp_all
  note c1 = commit_cases[OF e1] and c2 = commit_cases[OF e2] and c3 = commit_cases[OF e3]
  from c1 c2 c3 show ?thesis
    by (intro conjI) (rule e1, rule lt(1), rule e2, rule e3, rule lt(2))
qed

section \<open>The offsets map\<close>

lemma lookupTracker_storeTracker:
  "map_of offs topic = Some po \<Longrightarrow>
   lookupTracker (storeTracker offs topic part tracker) topic part = Some tracker"
  by (simp add: lookupTracker_def storeTracker_def update_conv')

lemma lookupTracker_deleteTracker:
  "lookupTracker (deleteTracker offs topic part) topic part = None"
  by (simp add: lookupTracker_def deleteTracker_def update_conv' delete_conv'
      split: option.splits)

lemma distinct_storeTracker:
  "distinct (map fst offs) \<Longrightarrow> distinct (map fst (storeTracker offs topic part tracker))"
  by (simp add: storeTracker_def distinct_update split: option.splits)

lemma distinct_deleteTracker:
  "distinct (map fst offs) \<Longrightarrow> distinct (map fst (deleteTracker offs topic part))"
  by (simp add: deleteTracker_def distinct_update split: option.splits)

section \<open>commitOffset\<close>

text \<open>
  Claim C5, amended: the committer that \<open>commitOffset\<close> installs, called with an argument
  \<open>o \<ge> 0\<close>, performs exactly the write \<open>CommitOffset(topic, partition, o + 1)\<close> and
  returns its result; \<open>o + 1\<close> is the \<open>int64\<close> sum, which is the integer \<open>o + 1\<close>
  unless \<open>o\<close> is the largest \<open>int64\<close>. Called with \<open>o < 0\<close> it writes nothing and
  returns no error.
\<close>

theorem committer_writes_next_offset:
  "(0 \<le>s offset \<longrightarrow>
      commitOffset_committer grp topic part offset w =
        CommitOffset grp topic part (offset + 1) w \<and>
      (offset \<noteq> 2^63 - 1 \<longrightarrow> sint (offset + 1) = sint offset + 1))
   \<and> (offset <s 0 \<longrightarrow> commitOffset_committer grp topic part offset w = (None, w))"
proof -
  have "sint (offset + 1) = sint offset + 1" if "offset \<noteq> 2^63 - 1"
  proof -
    have "sint offset \<noteq> 2^63 - 1"
    proof
      assume "sint offset = 2^63 - 1"
      then have "word_of_int (sint offset) = (word_of_int (2^63 - 1) :: int64)" by simp
      with that show False by simp
    qed
    with sint_lt[of offset] show ?thesis by (simp add: sint_succ)
  qed
  then show ?thesis
    by (auto simp: commitOffset_committer_def word_sle_eq word_sless_alt)
qed

theorem committer_writes_next_offset_witness:
  "(0::int64) \<le>s 9 \<and>
   commitOffset_committer simGroup ''t'' 0 9 \<lparr>stored = [], zkDown = False\<rparr> =
     (None, \<lparr>stored = [((''t'', 0), 10)], zkDown = False\<rparr>)
   \<and> (- 1 :: int64) <s 0 \<and>
   commitOffset_committer simGroup ''t'' 0 (- 1) \<lparr>stored = [], zkDown = False\<rparr> =
     (None, \<lparr>stored = [], zkDown = False\<rparr>)"
proof -
  let ?w = "\<lparr>stored = [], zkDown = False\<rparr>"
  have a: "(0::int64) \<le>s 9" and b: "(- 1 :: int64) <s 0"
    by (simp_all add: word_sle_eq word_sless_alt)
  have c: "CommitOffset simGroup ''t'' 0 (9 + 1) ?w =
             (None, \<lparr>stored = [((''t'', 0), 10)], zkDown = False\<rparr>)"
    by (simp add: simGroup_def)
  note pos = committer_writes_next_offset[of 9 simGroup "''t''" 0 ?w,
      THEN conjunct1, THEN mp, OF a, THEN conjunct1]
  note neg = committer_writes_next_offset[of "- 1" simGroup "''t''" 0 ?w,
      THEN conjunct2, THEN mp, OF b]
  from pos c have p: "commitOffset_committer simGroup ''t'' 0 9 ?w =
             (None, \<lparr>stored = [((''t'', 0), 10)], zkDown = False\<rparr>)"
    by (rule trans)
  from a p b neg show ?thesis by (intro conjI)
qed

text \<open>
  Claim C5, as stated: every call of the committer with argument \<open>o\<close> writes \<open>o + 1\<close>.
  It fails for a negative argument. With no offset stored, \<open>InitializePartition\<close> builds the
  tracker at \<open>-2\<close>; after \<open>markAsProcessed(-1)\<close> the commit invokes the committer with
  \<open>-1\<close>, which reports success (the last committed offset becomes \<open>-1\<close>) and leaves the
  coordination service without any stored offset, in particular without \<open>-1 + 1\<close>.
\<close>

theorem committer_negative_counterexample:
  "markAsProcessed (- 1) (newTracker (- 1)) =
     Inr (None, \<lparr>done_closed = False, waitingForOffset = 0, highestMarkedAsProcessedOffset = - 1,
                 lastConsumedOffset = - 2, lastCommittedOffset = - 2\<rparr>)
   \<and> commitOffset simGroup ''t'' 0
      \<lparr>done_closed = False, waitingForOffset = 0, highestMarkedAsProcessedOffset = - 1,
       lastConsumedOffset = - 2, lastCommittedOffset = - 2\<rparr>
      \<lparr>stored = [], zkDown = False\<rparr> =
     ((None, \<lparr>done_closed = False, waitingForOffset = 0, highestMarkedAsProcessedOffset = - 1,
              lastConsumedOffset = - 2, lastCommittedOffset = - 1\<rparr>),
      \<lparr>stored = [], zkDown = False\<rparr>)
   \<and> map_of (stored (snd (commitOffset_committer simGroup ''t'' 0 (- 1)
                 \<lparr>stored = [], zkDown = False\<rparr>))) (''t'', 0) \<noteq> Some (- 1 + 1)"
  by (simp add: markAsProcessed_def newTracker_def commitOffset_def commit_def
      commitOffset_committer_def simGroup_def word_sle_eq word_sless_alt)

section \<open>InitializePartition\<close>

lemma markAsProcessed_first:
  assumes "fetched \<noteq> - (2^63)"
  shows "\<exists>pot'. markAsProcessed fetched (newTracker fetched) = Inr (None, pot') \<and>
           highestMarkedAsProcessedOffset pot' = fetched"
  using pred_less[OF assms]
  by (simp add: markAsProcessed_def newTracker_def Let_def)

text \<open>
  Claim C6: when the coordination service answers the fetch with \<open>fetched\<close>,
  \<open>InitializePartition\<close> returns \<open>fetched\<close> without error and installs for (topic,
  partition) a tracker whose highest processed, last committed and last consumed offsets all
  equal \<open>fetched - 1\<close>; the first \<open>MarkAsProcessed\<close> at offset \<open>fetched\<close> is then
  accepted and makes \<open>fetched\<close> the highest processed offset. (For the acceptance
  \<open>fetched\<close> must not be the smallest \<open>int64\<close>, where \<open>fetched - 1\<close> wraps around; a
  persisted next-offset is \<open>-1\<close> or more.)
\<close>

theorem InitializePartition_installs_tracker:
  assumes "FetchOffset grp topic part w = (Inr fetched, w')"
  shows "\<exists>zom' tracker.
           InitializePartition grp topic part zom w = (((fetched, None), zom'), w') \<and>
           lookupTracker (offsets zom') topic part = Some tracker \<and>
           highestMarkedAsProcessedOffset tracker = fetched - 1 \<and>
           lastCommittedOffset tracker = fetched - 1 \<and>
           lastConsumedOffset tracker = fetched - 1 \<and>
           (fetched \<noteq> - (2^63) \<longrightarrow>
              (\<exists>zom''. MarkAsProcessed topic part fetched zom' = Inr (None, zom'') \<and>
                 map_option highestMarkedAsProcessedOffset
                   (lookupTracker (offsets zom'') topic part) = Some fetched))"
proof -
  define offs where "offs = (if map_of (offsets zom) topic = None
                  then AList.update topic [] (offsets zom) else offsets zom)"
  obtain po where po: "map_of offs topic = Some po"
    by (cases "map_of (offsets zom) topic") (auto simp: offs_def update_conv')
  define zom' where "zom' = zom\<lparr>offsets := storeTracker offs topic part (newTracker fetched)\<rparr>"
  have init: "InitializePartition grp topic part zom w = (((fetched, None), zom'), w')"
    using assms by (simp add: InitializePartition_def offs_def zom'_def)
  have look: "lookupTracker (offsets zom') topic part = Some (newTracker fetched)"
    using po by (simp add: zom'_def lookupTracker_storeTracker)
  obtain po' where po': "map_of (offsets zom') topic = Some po'"
    using po by (simp add: zom'_def storeTracker_def update_conv')
  have accept: "\<exists>zom''. MarkAsProcessed topic part fetched zom' = Inr (None, zom'') \<and>
                 map_option highestMarkedAsProcessedOffset
                   (lookupTracker (offsets zom'') topic part) = Some fetched"
    if "fetched \<noteq> - (2^63)"
  proof -
    from markAsProcessed_first[OF that] obtain pot' where
      m: "markAsProcessed fetched (newTracker fetched) = Inr (None, pot')"
      and h: "highestMarkedAsProcessedOffset pot' = fetched" by blast
    show ?thesis
      using look m h po' by (simp add: MarkAsProcessed_def lookupTracker_storeTracker)
  qed
  from init look accept show ?thesis
    by (intro exI[of _ zom'] exI[of _ "newTracker fetched"]) (simp add: newTracker_def)
qed


theorem InitializePartition_installs_tracker_witness:
  "FetchOffset simGroup ''t'' 0 \<lparr>stored = [((''t'', 0), 5)], zkDown = False\<rparr> =
     (Inr 5, \<lparr>stored = [((''t'', 0), 5)], zkDown = False\<rparr>)
   \<and> InitializePartition simGroup ''t'' 0 newManager
        \<lparr>stored = [((''t'', 0), 5)], zkDown = False\<rparr> =
       (((5, None), \<lparr>offsets = [(''t'', [(0, newTracker 5)])], closing = False, closed = False\<rparr>),
        \<lparr>stored = [((''t'', 0), 5)], zkDown = False\<rparr>)
   \<and> (5::int64) \<noteq> - (2^63)
   \<and> MarkAsProcessed ''t'' 0 5
        \<lparr>offsets = [(''t'', [(0, newTracker 5)])], closing = False, closed = False\<rparr> =
       Inr (None, \<lparr>offsets = [(''t'', [(0, (newTracker 5)\<lparr>highestMarkedAsProcessedOffset := 5\<rparr>)])],
                   closing = False, closed = False\<rparr>)"
proof -
  let ?w = "\<lparr>stored = [((''t'', 0 :: int32), 5 :: int64)], zkDown = False\<rparr>"
  have f: "FetchOffset simGroup ''t'' 0 ?w = (Inr 5, ?w)"
    by (simp add: simGroup_def)
  have i: "InitializePartition simGroup ''t'' 0 newManager ?w =
       (((5, None), \<lparr>offsets = [(''t'', [(0, newTracker 5)])], closing = False, closed = False\<rparr>), ?w)"
    by (simp add: InitializePartition_def newManager_def simGroup_def storeTracker_def)
  have n: "(5::int64) \<noteq> - (2^63)" by simp
  have m: "MarkAsProcessed ''t'' 0 5
        \<lparr>offsets = [(''t'', [(0, newTracker 5)])], closing = False, closed = False\<rparr> =
       Inr (None, \<lparr>offsets = [(''t'', [(0, (newTracker 5)\<lparr>highestMarkedAsProcessedOffset := 5\<rparr>)])],
                   closing = False, closed = False\<rparr>)"
    by (simp add: MarkAsProcessed_def lookupTracker_def storeTracker_def markAsProcessed_def
        newTracker_def)
  from InitializePartition_installs_tracker[OF f, of newManager] f i n m
  show ?thesis by (intro conjI)
qed


section \<open>FinalizePartition\<close>

lemma waitForOffset_blocks:
  assumes "0 \<le>s lastOffset" and "0 <s lastOffset - highestMarkedAsProcessedOffset tracker"
    and "await (done_closed tracker) timeout w = (reached, w1)"
  shows "waitForOffset await lastOffset timeout tracker w =
           ((reached, tracker\<lparr>waitingForOffset := lastOffset\<rparr>), w1)"
  using sub_pos[OF assms(1,2)] assms(3) by (simp add: waitForOffset_def)

text \<open>
  Claim C7, as stated: \<open>FinalizePartition\<close> always commits once more before it removes the
  tracker. It does not when no message was delivered (\<open>lastDelivered = -1\<close>): with the
  stored next-offset 5, the application acknowledges offset 5 (accepted, as it is
  \<open>lastConsumedOffset + 1\<close>), and \<open>FinalizePartition\<close> with \<open>lastDelivered = -1\<close> removes
  the tracker and leaves the stored offset at 5, where the commit of that tracker would have
  stored 6.
\<close>

theorem FinalizePartition_no_commit_counterexample:
  "InitializePartition simGroup ''t'' 0 newManager \<lparr>stored = [((''t'', 0), 5)], zkDown = False\<rparr> =
     (((5, None), \<lparr>offsets = [(''t'', [(0, newTracker 5)])], closing = False, closed = False\<rparr>),
      \<lparr>stored = [((''t'', 0), 5)], zkDown = False\<rparr>)
   \<and> MarkAsProcessed ''t'' 0 5
        \<lparr>offsets = [(''t'', [(0, newTracker 5)])], closing = False, closed = False\<rparr> =
       Inr (None, \<lparr>offsets = [(''t'', [(0, (newTracker 5)\<lparr>highestMarkedAsProcessedOffset := 5\<rparr>)])],
                   closing = False, closed = False\<rparr>)
   \<and> FinalizePartition simGroup simAwait ''t'' 0 (- 1) 1000000000
        \<lparr>offsets = [(''t'', [(0, (newTracker 5)\<lparr>highestMarkedAsProcessedOffset := 5\<rparr>)])],
         closing = False, closed = False\<rparr>
        \<lparr>stored = [((''t'', 0), 5)], zkDown = False\<rparr> =
       Inr ((None, \<lparr>offsets = [(''t'', [])], closing = False, closed = False\<rparr>),
            \<lparr>stored = [((''t'', 0), 5)], zkDown = False\<rparr>)
   \<and> snd (commitOffset simGroup ''t'' 0 ((newTracker 5)\<lparr>highestMarkedAsProcessedOffset := 5\<rparr>)
            \<lparr>stored = [((''t'', 0), 5)], zkDown = False\<rparr>) =
       \<lparr>stored = [((''t'', 0), 6)], zkDown = False\<rparr>"
  by (simp add: InitializePartition_def newManager_def simGroup_def storeTracker_def
      MarkAsProcessed_def lookupTracker_def markAsProcessed_def newTracker_def
      FinalizePartition_def deleteTracker_def commitOffset_def commit_def
      commitOffset_committer_def word_sle_eq word_sless_alt)

text \<open>
  Claim C7, amended: for an initialised (topic, partition) and every \<open>lastDelivered\<close>,
  \<open>FinalizePartition\<close> waits (on the channel \<open>done\<close> against the timer, once) exactly when
  \<open>lastDelivered \<ge> 0\<close> and \<open>lastDelivered - highestMarkedAsProcessedOffset > 0\<close> in
  \<open>int64\<close> arithmetic, and goes on whether the wait was answered or timed out; when
  \<open>lastDelivered \<ge> 0\<close> it then commits once, whatever the commit returns: it returns in the
  world left by the wait (if any) and that one commit. When the commit succeeds or reports
  \<open>NoOffsetToCommit\<close> it removes the tracker from the map and returns no error; when
  \<open>lastDelivered < 0\<close> it neither waits nor commits, removes the tracker and returns no
  error. After the removal the map has no tracker for (topic, partition).
\<close>

theorem FinalizePartition_amended:
  assumes "lookupTracker (offsets zom) topic part = Some tracker"
  shows "(lastOffset <s 0 \<longrightarrow>
            FinalizePartition grp await topic part lastOffset timeout zom w =
              Inr ((None, zom\<lparr>offsets := deleteTracker (offsets zom) topic part\<rparr>), w))
       \<and> (0 \<le>s lastOffset \<and> 0 <s lastOffset - highestMarkedAsProcessedOffset tracker \<longrightarrow>
            (\<forall>reached w1 err tracker2 w2.
               await (done_closed tracker) timeout w = (reached, w1) \<longrightarrow>
               commitOffset grp topic part (tracker\<lparr>waitingForOffset := lastOffset\<rparr>) w1 =
                 ((err, tracker2), w2) \<longrightarrow>
               (\<exists>res zom'. FinalizePartition grp await topic part lastOffset timeout zom w =
                    Inr ((res, zom'), w2)) \<and>
               (err = None \<or> err = Some NoOffsetToCommit \<longrightarrow>
                FinalizePartition grp await topic part lastOffset timeout zom w =
                  Inr ((None, zom\<lparr>offsets := deleteTracker (offsets zom) topic part\<rparr>), w2))))
       \<and> (0 \<le>s lastOffset \<and> \<not> 0 <s lastOffset - highestMarkedAsProcessedOffset tracker \<longrightarrow>
            (\<forall>err tracker2 w2.
               commitOffset grp topic part tracker w = ((err, tracker2), w2) \<longrightarrow>
               (\<exists>res zom'. FinalizePartition grp await topic part lastOffset timeout zom w =
                    Inr ((res, zom'), w2)) \<and>
               (err = None \<or> err = Some NoOffsetToCommit \<longrightarrow>
                FinalizePartition grp await topic part lastOffset timeout zom w =
                  Inr ((None, zom\<lparr>offsets := deleteTracker (offsets zom) topic part\<rparr>), w2))))
       \<and> lookupTracker (deleteTracker (offsets zom) topic part) topic part = None"
proof (intro conjI impI allI)
  assume "lastOffset <s 0"
  then have "\<not> 0 \<le>s lastOffset" by (simp add: word_sle_eq word_sless_alt)
  then show "FinalizePartition grp await topic part lastOffset timeout zom w =
              Inr ((None, zom\<lparr>offsets := deleteTracker (offsets zom) topic part\<rparr>), w)"
    by (simp add: FinalizePartition_def)
next
  fix reached w1 err tracker2 w2
  assume c: "0 \<le>s lastOffset \<and> 0 <s lastOffset - highestMarkedAsProcessedOffset tracker"
    and a: "await (done_closed tracker) timeout w = (reached, w1)"
    and k: "commitOffset grp topic part (tracker\<lparr>waitingForOffset := lastOffset\<rparr>) w1 =
                 ((err, tracker2), w2)"
  from c a have "waitForOffset await lastOffset timeout tracker w =
           ((reached, tracker\<lparr>waitingForOffset := lastOffset\<rparr>), w1)"
    by (simp add: waitForOffset_blocks)
  with c k assms
  show "\<exists>res zom'. FinalizePartition grp await topic part lastOffset timeout zom w =
                    Inr ((res, zom'), w2)"
    by (simp add: FinalizePartition_def)
next
  fix reached w1 err tracker2 w2
  assume c: "0 \<le>s lastOffset \<and> 0 <s lastOffset - highestMarkedAsProcessedOffset tracker"
    and a: "await (done_closed tracker) timeout w = (reached, w1)"
    and k: "commitOffset grp topic part (tracker\<lparr>waitingForOffset := lastOffset\<rparr>) w1 =
                 ((err, tracker2), w2)"
    and e: "err = None \<or> err = Some NoOffsetToCommit"
  from c a have "waitForOffset await lastOffset timeout tracker w =
           ((reached, tracker\<lparr>waitingForOffset := lastOffset\<rparr>), w1)"
    by (simp add: waitForOffset_blocks)
  with c k e assms
  show "FinalizePartition grp await topic part lastOffset timeout zom w =
                 Inr ((None, zom\<lparr>offsets := deleteTracker (offsets zom) topic part\<rparr>), w2)"
    by (auto simp: FinalizePartition_def)
next
  fix err tracker2 w2
  assume c: "0 \<le>s lastOffset \<and> \<not> 0 <s lastOffset - highestMarkedAsProcessedOffset tracker"
    and k: "commitOffset grp topic part tracker w = ((err, tracker2), w2)"
  with assms
  show "\<exists>res zom'. FinalizePartition grp await topic part lastOffset timeout zom w =
                    Inr ((res, zom'), w2)"
    by (simp add: FinalizePartition_def)
next
  fix err tracker2 w2
  assume c: "0 \<le>s lastOffset \<and> \<not> 0 <s lastOffset - highestMarkedAsProcessedOffset tracker"
    and k: "commitOffset grp topic part tracker w = ((err, tracker2), w2)"
    and e: "err = None \<or> err = Some NoOffsetToCommit"
  with assms
  show "FinalizePartition grp await topic part lastOffset timeout zom w =
                 Inr ((None, zom\<lparr>offsets := deleteTracker (offsets zom) topic part\<rparr>), w2)"
    by (auto simp: FinalizePartition_def)
next
  show "lookupTracker (deleteTracker (offsets zom) topic part) topic part = None"
    by (rule lookupTracker_deleteTracker)
qed

theorem FinalizePartition_amended_witness:
  "lookupTracker [(''t'', [(0, (newTracker 5)\<lparr>highestMarkedAsProcessedOffset := 5,
                                              lastConsumedOffset := 7\<rparr>)])] ''t'' 0 =
     Some ((newTracker 5)\<lparr>highestMarkedAsProcessedOffset := 5, lastConsumedOffset := 7\<rparr>)
   \<and> (0::int64) \<le>s 7 \<and> (0::int64) <s 7 - 5
   \<and> simAwait False 1000000000 \<lparr>stored = [((''t'', 0), 5)], zkDown = False\<rparr> =
        (False, \<lparr>stored = [((''t'', 0), 5)], zkDown = False\<rparr>)
   \<and> commitOffset simGroup ''t'' 0
        ((newTracker 5)\<lparr>highestMarkedAsProcessedOffset := 5, lastConsumedOffset := 7,
                         waitingForOffset := 7\<rparr>)
        \<lparr>stored = [((''t'', 0), 5)], zkDown = False\<rparr> =
       ((None, (newTracker 5)\<lparr>highestMarkedAsProcessedOffset := 5, lastConsumedOffset := 7,
                         waitingForOffset := 7, lastCommittedOffset := 5\<rparr>),
        \<lparr>stored = [((''t'', 0), 6)], zkDown = False\<rparr>)
   \<and> FinalizePartition simGroup simAwait ''t'' 0 7 1000000000
        \<lparr>offsets = [(''t'', [(0, (newTracker 5)\<lparr>highestMarkedAsProcessedOffset := 5,
                                                  lastConsumedOffset := 7\<rparr>)])],
         closing = False, closed = False\<rparr>
        \<lparr>stored = [((''t'', 0), 5)], zkDown = False\<rparr> =
       Inr ((None, \<lparr>offsets = [(''t'', [])], closing = False, closed = False\<rparr>),
            \<lparr>stored = [((''t'', 0), 6)], zkDown = False\<rparr>)
   \<and> commitOffset simGroup ''t'' 0
        ((newTracker 5)\<lparr>highestMarkedAsProcessedOffset := 5, lastConsumedOffset := 7,
                         waitingForOffset := 7\<rparr>)
        \<lparr>stored = [((''t'', 0), 5)], zkDown = True\<rparr> =
       ((Some (ExternalError ''zk''),
         (newTracker 5)\<lparr>highestMarkedAsProcessedOffset := 5, lastConsumedOffset := 7,
                         waitingForOffset := 7\<rparr>),
        \<lparr>stored = [((''t'', 0), 5)], zkDown = True\<rparr>)
   \<and> FinalizePartition simGroup simAwait ''t'' 0 7 1000000000
        \<lparr>offsets = [(''t'', [(0, (newTracker 5)\<lparr>highestMarkedAsProcessedOffset := 5,
                                                  lastConsumedOffset := 7\<rparr>)])],
         closing = False, closed = False\<rparr>
        \<lparr>stored = [((''t'', 0), 5)], zkDown = True\<rparr> =
       Inr ((Some (CommitFailed 5 4 (ExternalError ''zk'')),
             \<lparr>offsets = [(''t'', [(0, (newTracker 5)\<lparr>highestMarkedAsProcessedOffset := 5,
                                         lastConsumedOffset := 7, waitingForOffset := 7\<rparr>)])],
              closing = False, closed = False\<rparr>),
            \<lparr>stored = [((''t'', 0), 5)], zkDown = True\<rparr>)"
proof -
  let ?tr = "(newTracker 5)\<lparr>highestMarkedAsProcessedOffset := 5, lastConsumedOffset := 7\<rparr>"
  let ?wd = "\<lparr>stored = [((''t'', 0 :: int32), 5 :: int64)], zkDown = True\<rparr>"
  let ?zom = "\<lparr>offsets = [(''t'', [(0 :: int32, ?tr)])], closing = False, closed = False\<rparr>"
  let ?w = "\<lparr>stored = [((''t'', 0 :: int32), 5 :: int64)], zkDown = False\<rparr>"
  let ?w' = "\<lparr>stored = [((''t'', 0 :: int32), 6 :: int64)], zkDown = False\<rparr>"
  have l: "lookupTracker (offsets ?zom) ''t'' 0 = Some ?tr"
    by (simp add: lookupTracker_def)
  have c: "(0::int64) \<le>s 7 \<and> 0 <s 7 - highestMarkedAsProcessedOffset ?tr"
    by (simp add: word_sle_eq word_sless_alt)
  have a: "simAwait (done_closed ?tr) 1000000000 ?w = (False, ?w)"
    by (simp add: simAwait_def newTracker_def)
  have k: "commitOffset simGroup ''t'' 0 (?tr\<lparr>waitingForOffset := 7\<rparr>) ?w =
             ((None, ?tr\<lparr>waitingForOffset := 7, lastCommittedOffset := 5\<rparr>), ?w')"
    by (simp add: commitOffset_def commit_def commitOffset_committer_def simGroup_def
        newTracker_def word_sle_eq word_sless_alt)
  have d: "deleteTracker (offsets ?zom) ''t'' 0 = [(''t'', [])]"
    by (simp add: deleteTracker_def)
  note fin = FinalizePartition_amended[OF l, of 7 simGroup simAwait 1000000000 ?w,
      THEN conjunct2, THEN conjunct1, THEN mp, OF c, THEN spec, THEN spec, THEN spec,
      THEN spec, THEN spec, THEN mp, OF a, THEN mp, OF k, THEN conjunct2, THEN mp,
      OF disjI1, OF refl]
  from fin d have f: "FinalizePartition simGroup simAwait ''t'' 0 7 1000000000 ?zom ?w =
       Inr ((None, \<lparr>offsets = [(''t'', [])], closing = False, closed = False\<rparr>), ?w')"
    by simp
  have ad: "simAwait (done_closed ?tr) 1000000000 ?wd = (False, ?wd)"
    by (simp add: simAwait_def newTracker_def)
  have kd: "commitOffset simGroup ''t'' 0 (?tr\<lparr>waitingForOffset := 7\<rparr>) ?wd =
             ((Some (ExternalError ''zk''), ?tr\<lparr>waitingForOffset := 7\<rparr>), ?wd)"
    by (simp add: commitOffset_def commit_def commitOffset_committer_def simGroup_def
        newTracker_def word_sle_eq word_sless_alt)
  note once = FinalizePartition_amended[OF l, of 7 simGroup simAwait 1000000000 ?wd,
      THEN conjunct2, THEN conjunct1, THEN mp, OF c, THEN spec, THEN spec, THEN spec,
      THEN spec, THEN spec, THEN mp, OF ad, THEN mp, OF kd, THEN conjunct1]
  have fd: "FinalizePartition simGroup simAwait ''t'' 0 7 1000000000 ?zom ?wd =
       Inr ((Some (CommitFailed 5 4 (ExternalError ''zk'')),
             \<lparr>offsets = [(''t'', [(0, ?tr\<lparr>waitingForOffset := 7\<rparr>)])],
              closing = False, closed = False\<rparr>), ?wd)"
    by (simp add: FinalizePartition_def lookupTracker_def waitForOffset_def simAwait_def
        commitOffset_def commit_def commitOffset_committer_def simGroup_def storeTracker_def
        newTracker_def word_sle_eq word_sless_alt)
  from once l c a k f kd fd show ?thesis by (simp add: newTracker_def)
qed

text \<open>
  For reference, the remaining path: when the commit fails with another error, that error is
  returned wrapped and the tracker stays in the map, whether the wait was taken or not.
\<close>

lemma FinalizePartition_commit_failure:
  assumes "lookupTracker (offsets zom) topic part = Some tracker"
    and "0 \<le>s lastOffset"
    and "\<not> 0 <s lastOffset - highestMarkedAsProcessedOffset tracker"
    and "commitOffset grp topic part tracker w = ((Some err, tracker2), w2)"
    and "err \<noteq> NoOffsetToCommit"
  shows "\<exists>zom' e. FinalizePartition grp await topic part lastOffset timeout zom w =
                 Inr ((Some e, zom'), w2) \<and>
               lookupTracker (offsets zom') topic part = Some tracker2"
proof -
  from assms(1) obtain po where "map_of (offsets zom) topic = Some po"
    by (auto simp: lookupTracker_def split: option.splits)
  then have "lookupTracker (storeTracker (offsets zom) topic part tracker2) topic part =
               Some tracker2"
    by (rule lookupTracker_storeTracker)
  with assms show ?thesis by (simp add: FinalizePartition_def)
qed

lemma FinalizePartition_commit_failure_after_wait:
  assumes "lookupTracker (offsets zom) topic part = Some tracker"
    and "0 \<le>s lastOffset"
    and "0 <s lastOffset - highestMarkedAsProcessedOffset tracker"
    and "await (done_closed tracker) timeout w = (reached, w1)"
    and "commitOffset grp topic part (tracker\<lparr>waitingForOffset := lastOffset\<rparr>) w1 =
           ((Some err, tracker2), w2)"
    and "err \<noteq> NoOffsetToCommit"
  shows "\<exists>zom' e. FinalizePartition grp await topic part lastOffset timeout zom w =
                 Inr ((Some e, zom'), w2) \<and>
               lookupTracker (offsets zom') topic part = Some tracker2"
proof -
  from assms(1) obtain po where "map_of (offsets zom) topic = Some po"
    by (auto simp: lookupTracker_def split: option.splits)
  then have "lookupTracker (storeTracker (offsets zom) topic part tracker2) topic part =
               Some tracker2"
    by (rule lookupTracker_storeTracker)
  moreover have "waitForOffset await lastOffset timeout tracker w =
           ((reached, tracker\<lparr>waitingForOffset := lastOffset\<rparr>), w1)"
    using assms(2,3,4) by (rule waitForOffset_blocks)
  ultimately show ?thesis using assms by (simp add: FinalizePartition_def)
qed

text \<open>
  The condition of the wait is \<open>lastDelivered > highestMarkedAsProcessedOffset\<close> whenever the
  difference of the two offsets fits an \<open>int64\<close>.
\<close>

lemma wait_condition_without_overflow:
  assumes "- (2^63) < sint l - sint h" and "sint l - sint h < 2^63"
  shows "(0 <s (l::int64) - h) = (h <s l)"
  using assms by (simp add: word_sless_alt sint_word_diff signed_take_bit_int_eq_self)

section \<open>Close of the offset manager\<close>








text \<open>The operations of the manager keep the keys of the map distinct.\<close>

lemma distinct_InitializePartition:
  "distinct (map fst (offsets zom)) \<Longrightarrow>
   distinct (map fst (offsets (snd (fst (InitializePartition grp topic part zom w)))))"
  by (auto simp: InitializePartition_def Let_def distinct_storeTracker distinct_update
      split: prod.splits sum.splits)

lemma distinct_FinalizePartition:
  "distinct (map fst (offsets zom)) \<Longrightarrow>
   FinalizePartition grp await topic part lastOffset timeout zom w = Inr ((r, zom'), w') \<Longrightarrow>
   distinct (map fst (offsets zom'))"
  by (auto simp: FinalizePartition_def distinct_storeTracker distinct_deleteTracker
      split: if_splits option.splits prod.splits)

section \<open>ConsumerGroup.Close\<close>

text \<open>
  Claim C10: in \<open>ConsumerGroup.Close\<close> the error of deregistering the instance is
  overwritten by the result of closing the broker client: in every first call of \<open>Close\<close>
  in which \<open>Deregister\<close> fails and the broker client's \<open>Close\<close> succeeds, \<open>Close\<close>
  returns no error.
\<close>

theorem ConsumerGroup_Close_discards_deregister_error:
  assumes "\<not> shutdownDone cg" and "\<not> stopper_closed cg"
    and "\<not> messages_closed cg" and "\<not> errors_closed cg"
    and "WaitGroupWait env (offsets (offsetManager cg)) w = (offs1, w1)"
    and "Close (zkGroup env) ticks ((offsetManager cg)\<lparr>offsets := offs1\<rparr>) w1 =
           Inr ((err, zom2), w2)"
    and "Deregister env w2 = (Some e, w3)"
    and "ConsumerClose env w3 = (None, w4)"
  shows "ConsumerGroup_Close env ticks cg w =
           Inr ((None,
                 cg\<lparr>shutdownDone := True, stopper_closed := True, messages_closed := True,
                    errors_closed := True, instance_nil := True, offsetManager := zom2\<rparr>),
                KazooClose env w4)"
  using assms by (simp add: ConsumerGroup_Close_def)

lemma ConsumerGroup_Close_again:
  "shutdownDone cg \<Longrightarrow> ConsumerGroup_Close env ticks cg w = Inr ((Some AlreadyClosing, cg), w)"
  by (simp add: ConsumerGroup_Close_def)

section \<open>consumePartition\<close>



lemma openPartitionConsumer_ok:
  assumes "ConsumePartition env topic part nextOffset w = (None, w1)"
  shows "openPartitionConsumer env cfg topic part nextOffset w = ((None, nextOffset), w1)"
  using assms by (simp add: openPartitionConsumer_def)



theorem ConsumerGroup_Close_discards_deregister_error_witness:
  "\<not> shutdownDone freshGroup \<and> \<not> stopper_closed freshGroup \<and>
   \<not> messages_closed freshGroup \<and> \<not> errors_closed freshGroup
   \<and> Deregister simEnv (simWorld [] [] True 0) =
       (Some (ExternalError ''deregister''), simWorld [] [] True 0)
   \<and> ConsumerClose simEnv (simWorld [] [] True 0) = (None, simWorld [] [] True 0)
   \<and> ConsumerGroup_Close simEnv 0 freshGroup (simWorld [] [] True 0) =
       Inr ((None,
             \<lparr>shutdownDone = True, stopper_closed = True, messages_closed = True,
              errors_closed = True, instance_nil = True,
              offsetManager = \<lparr>offsets = [], closing = True, closed = True\<rparr>\<rparr>),
            simWorld [] [] True 0)"
proof -
  let ?w = "simWorld [] [] True 0"
  let ?zom = "\<lparr>offsets = [], closing = True, closed = True\<rparr>"
  have f: "\<not> shutdownDone freshGroup" "\<not> stopper_closed freshGroup"
    "\<not> messages_closed freshGroup" "\<not> errors_closed freshGroup"
    by (simp_all add: freshGroup_def)
  have wg: "WaitGroupWait simEnv (offsets (offsetManager freshGroup)) ?w = ([], ?w)"
    by (simp add: simEnv_def freshGroup_def newManager_def)
  have cl: "Close (zkGroup simEnv) 0 ((offsetManager freshGroup)\<lparr>offsets := []\<rparr>) ?w =
              Inr ((None, ?zom), ?w)"
    by (simp add: Close_def freshGroup_def newManager_def)
  have d: "Deregister simEnv ?w = (Some (ExternalError ''deregister''), ?w)"
    by (simp add: simEnv_def simWorld_def)
  have c: "ConsumerClose simEnv ?w = (None, ?w)"
    by (simp add: simEnv_def)
  have k: "KazooClose simEnv ?w = ?w" by (simp add: simEnv_def)
  have u: "freshGroup\<lparr>shutdownDone := True, stopper_closed := True, messages_closed := True,
             errors_closed := True, instance_nil := True, offsetManager := ?zom\<rparr> =
           \<lparr>shutdownDone = True, stopper_closed = True, messages_closed = True,
              errors_closed = True, instance_nil = True, offsetManager = ?zom\<rparr>"
    by (simp add: freshGroup_def)
  note r = ConsumerGroup_Close_discards_deregister_error[OF f wg cl d c]
  from r have r': "ConsumerGroup_Close simEnv 0 freshGroup ?w =
       Inr ((None,
             \<lparr>shutdownDone = True, stopper_closed = True, messages_closed = True,
              errors_closed = True, instance_nil = True, offsetManager = ?zom\<rparr>), ?w)"
    by (simp only: k u)
  from f d c r' show ?thesis by (intro conjI)
qed


end
